theory Spec2Isabelle
  imports Complex_Main "HOL-Library.Word"
begin

section \<open>Machine values\<close>

text \<open>
  \<open>int32_t\<close> and \<open>uint32_t\<close> are 32-bit words; a signed comparison of the source is
  \<open><s\<close> (or a comparison of \<open>sint\<close>), and \<open>+\<close> wraps as the unsigned addition
  of the source does.
\<close>

type_synonym int32 = "32 word"
type_synonym uint32 = "32 word"

text \<open>
  A C++ \<open>float\<close> is an IEEE single: a finite number, an infinity or a NaN. The finite
  values are a subset of the reals, so every float of the program is a value of this
  type, and the comparison operators below are the IEEE ones: any comparison with a
  NaN is false, \<open>-0.0\<close> and \<open>0.0\<close> (both \<open>Finite 0\<close>) compare equal.
\<close>

datatype float = Finite real | PosInf | NegInf | NaN

fun flt :: "float \<Rightarrow> float \<Rightarrow> bool" where
  "flt (Finite a) (Finite b) = (a < b)"
| "flt (Finite a) PosInf = True"
| "flt NegInf (Finite b) = True"
| "flt NegInf PosInf = True"
| "flt _ _ = False"

definition fgt :: "float \<Rightarrow> float \<Rightarrow> bool" where
  "fgt a b = flt b a"

fun feq :: "float \<Rightarrow> float \<Rightarrow> bool" where
  "feq NaN _ = False"
| "feq _ NaN = False"
| "feq a b = (a = b)"

section \<open>Interface types\<close>

text \<open>
  Modelled from the spec: the AIDL declarations of \<open>Effect\<close>, \<open>EffectStrength\<close>,
  \<open>CompositePrimitive\<close>, \<open>CompositeEffect\<close>, \<open>Braking\<close>, \<open>ActivePwle\<close>,
  \<open>BrakingPwle\<close> and \<open>PrimitivePwle\<close> are not among the sources. \<open>Effect\<close>,
  \<open>CompositePrimitive\<close> and \<open>Braking\<close> are enums backed by a 32-bit integer, and a
  caller can pass any value of that integer, so each is kept as its backing value:
  one machine value is one value of the model. The enumerators that the source names
  are constants with the values of the interface: \<open>Effect\<close> has CLICK = 0,
  DOUBLE_CLICK = 1, TICK = 2, THUD = 3, POP = 4, HEAVY_CLICK = 5, the ringtones 6 to 20
  and TEXTURE_TICK = 21; \<open>CompositePrimitive\<close> has NOOP = 0 up to LOW_TICK = 8;
  \<open>Braking\<close> has NONE = 0 and CLAB = 1, the highest defined braking value. The
  primitives CLICK and THUD are \<open>P_CLICK\<close> and \<open>P_THUD\<close> here, the effects keep the
  plain names.
\<close>

type_synonym Effect = int32

definition CLICK :: Effect where "CLICK = 0"
definition DOUBLE_CLICK :: Effect where "DOUBLE_CLICK = 1"
definition TICK :: Effect where "TICK = 2"
definition THUD :: Effect where "THUD = 3"
definition POP :: Effect where "POP = 4"
definition HEAVY_CLICK :: Effect where "HEAVY_CLICK = 5"
definition TEXTURE_TICK :: Effect where "TEXTURE_TICK = 21"

datatype EffectStrength = LIGHT | MEDIUM | STRONG

type_synonym CompositePrimitive = int32

definition NOOP :: CompositePrimitive where "NOOP = 0"
definition P_CLICK :: CompositePrimitive where "P_CLICK = 1"
definition P_THUD :: CompositePrimitive where "P_THUD = 2"
definition SPIN :: CompositePrimitive where "SPIN = 3"
definition QUICK_RISE :: CompositePrimitive where "QUICK_RISE = 4"
definition SLOW_RISE :: CompositePrimitive where "SLOW_RISE = 5"
definition QUICK_FALL :: CompositePrimitive where "QUICK_FALL = 6"
definition LIGHT_TICK :: CompositePrimitive where "LIGHT_TICK = 7"
definition LOW_TICK :: CompositePrimitive where "LOW_TICK = 8"

record CompositeEffect =
  delayMs :: int32
  primitive :: CompositePrimitive
  scale :: float

type_synonym Braking = int32

definition NONE :: Braking where "NONE = 0"
definition CLAB :: Braking where "CLAB = 1"

record ActivePwle =
  startAmplitude :: float
  startFrequency :: float
  endAmplitude :: float
  endFrequency :: float
  duration :: int32

record BrakingPwle =
  braking :: Braking
  b_duration :: int32

datatype PrimitivePwle = active ActivePwle | braking_seg BrakingPwle

datatype exception = EX_ILLEGAL_ARGUMENT | EX_UNSUPPORTED_OPERATION

section \<open>Constants\<close>

definition COMPOSE_DELAY_MAX_MS :: int32 where "COMPOSE_DELAY_MAX_MS = 1000"
definition COMPOSE_SIZE_MAX :: int32 where "COMPOSE_SIZE_MAX = 256"
definition COMPOSE_PWLE_SIZE_MAX :: int32 where "COMPOSE_PWLE_SIZE_MAX = 127"

definition COMPOSE_PWLE_PRIMITIVE_DURATION_MAX_MS :: int32 where
  "COMPOSE_PWLE_PRIMITIVE_DURATION_MAX_MS = 16383"
definition PWLE_LEVEL_MIN :: float where "PWLE_LEVEL_MIN = Finite 0"
definition PWLE_LEVEL_MAX :: float where "PWLE_LEVEL_MAX = Finite 1"
definition PWLE_FREQUENCY_MIN_HZ :: float where "PWLE_FREQUENCY_MIN_HZ = Finite 140"
definition PWLE_FREQUENCY_MAX_HZ :: float where "PWLE_FREQUENCY_MAX_HZ = Finite 160"

definition HAPTIC_NODE :: string where
  "HAPTIC_NODE = ''/sys/bus/i2c/drivers/aw8697_haptic/2-005a/''"
definition ACTIVATE_NODE :: string where "ACTIVATE_NODE = HAPTIC_NODE @ ''activate''"
definition DURATION_NODE :: string where "DURATION_NODE = HAPTIC_NODE @ ''duration''"
definition INDEX_NODE :: string where "INDEX_NODE = HAPTIC_NODE @ ''index''"

definition WAVEFORM_TICK_EFFECT_MS :: uint32 where "WAVEFORM_TICK_EFFECT_MS = 10"
definition WAVEFORM_TEXTURE_TICK_EFFECT_MS :: uint32 where
  "WAVEFORM_TEXTURE_TICK_EFFECT_MS = 20"
definition WAVEFORM_CLICK_EFFECT_MS :: uint32 where "WAVEFORM_CLICK_EFFECT_MS = 15"
definition WAVEFORM_HEAVY_CLICK_EFFECT_MS :: uint32 where
  "WAVEFORM_HEAVY_CLICK_EFFECT_MS = 30"
definition WAVEFORM_DOUBLE_CLICK_EFFECT_MS :: uint32 where
  "WAVEFORM_DOUBLE_CLICK_EFFECT_MS = 60"
definition WAVEFORM_THUD_EFFECT_MS :: uint32 where "WAVEFORM_THUD_EFFECT_MS = 35"
definition WAVEFORM_POP_EFFECT_MS :: uint32 where "WAVEFORM_POP_EFFECT_MS = 15"

definition WAVEFORM_TICK_EFFECT_INDEX :: uint32 where "WAVEFORM_TICK_EFFECT_INDEX = 1"
definition WAVEFORM_TEXTURE_TICK_EFFECT_INDEX :: uint32 where
  "WAVEFORM_TEXTURE_TICK_EFFECT_INDEX = 4"
definition WAVEFORM_CLICK_EFFECT_INDEX :: uint32 where "WAVEFORM_CLICK_EFFECT_INDEX = 2"
definition WAVEFORM_HEAVY_CLICK_EFFECT_INDEX :: uint32 where
  "WAVEFORM_HEAVY_CLICK_EFFECT_INDEX = 5"
definition WAVEFORM_DOUBLE_CLICK_EFFECT_INDEX :: uint32 where
  "WAVEFORM_DOUBLE_CLICK_EFFECT_INDEX = 6"
definition WAVEFORM_THUD_EFFECT_INDEX :: uint32 where "WAVEFORM_THUD_EFFECT_INDEX = 7"

section \<open>Output streams, driver nodes and detached threads\<close>

text \<open>
  The formatting of \<open>operator<<\<close> belongs to the C++ library, so a stream is the
  sequence of the values inserted into it: a string literal, an integer, or a float.
\<close>

datatype item = StrV string | IntV int | FloatV float

type_synonym ostringstream = "item list"

text \<open>
  A callback is a \<open>shared_ptr\<close>, \<open>None\<close> when it is \<open>nullptr\<close>. A detached thread is
  the closure it was started with: the values its lambda captured.
\<close>

type_synonym callback = nat

datatype thread =
  OnThread int32 callback
  | PerformThread callback
  | ComposeThread "CompositeEffect list" "callback option"
  | ComposePwleThread uint32 "callback option"

text \<open>The callback whose \<open>onComplete\<close> a thread calls after its sleeps, if any.\<close>

fun notifies :: "thread \<Rightarrow> callback option" where
  "notifies (OnThread timeoutMs cb) = Some cb"
| "notifies (PerformThread cb) = Some cb"
| "notifies (ComposeThread composite cb) = cb"
| "notifies (ComposePwleThread totalDuration cb) = cb"

text \<open>
  What a call can change outside itself: the values written to the driver's nodes, in
  order, and the threads it detached.
\<close>

record world =
  nodes :: "(string \<times> item) list"
  threads :: "thread list"

definition write_haptic_node :: "string \<Rightarrow> item \<Rightarrow> world \<Rightarrow> world" where
  "write_haptic_node path v w = w\<lparr>nodes := nodes w @ [(path, v)]\<rparr>"

definition detach :: "thread \<Rightarrow> world \<Rightarrow> world" where
  "detach t w = w\<lparr>threads := threads w @ [t]\<rparr>"

section \<open>on and perform\<close>

definition on :: "int32 \<Rightarrow> callback option \<Rightarrow> world \<Rightarrow> (exception + unit) \<times> world" where
  "on timeoutMs cb w =
     (let w1 = write_haptic_node DURATION_NODE (IntV (sint timeoutMs)) w;
          w2 = write_haptic_node ACTIVATE_NODE (IntV 1) w1;
          w3 = (case cb of None \<Rightarrow> w2 | Some c \<Rightarrow> detach (OnThread timeoutMs c) w2)
      in (Inr (), w3))"

text \<open>
  The \<open>switch\<close> of \<open>perform\<close>: the waveform index and the duration of an effect,
  none in the \<open>default\<close> case.
\<close>

definition effect_waveform :: "Effect \<Rightarrow> (uint32 \<times> uint32) option" where
  "effect_waveform effect =
     (if effect = TICK then Some (WAVEFORM_TICK_EFFECT_INDEX, WAVEFORM_TICK_EFFECT_MS)
      else if effect = TEXTURE_TICK
        then Some (WAVEFORM_TEXTURE_TICK_EFFECT_INDEX, WAVEFORM_TEXTURE_TICK_EFFECT_MS)
      else if effect = CLICK
        then Some (WAVEFORM_CLICK_EFFECT_INDEX, WAVEFORM_CLICK_EFFECT_MS)
      else if effect = HEAVY_CLICK
        then Some (WAVEFORM_HEAVY_CLICK_EFFECT_INDEX, WAVEFORM_HEAVY_CLICK_EFFECT_MS)
      else if effect = DOUBLE_CLICK
        then Some (WAVEFORM_DOUBLE_CLICK_EFFECT_INDEX, WAVEFORM_DOUBLE_CLICK_EFFECT_MS)
      else if effect = THUD
        then Some (WAVEFORM_THUD_EFFECT_INDEX, WAVEFORM_THUD_EFFECT_MS)
      else if effect = POP then Some (WAVEFORM_TICK_EFFECT_INDEX, WAVEFORM_POP_EFFECT_MS)
      else None)"

definition perform ::
  "Effect \<Rightarrow> EffectStrength \<Rightarrow> callback option \<Rightarrow> world \<Rightarrow> (exception + int32) \<times> world"
where
  "perform effect strength cb w =
     (case effect_waveform effect of
        None \<Rightarrow> (Inl EX_UNSUPPORTED_OPERATION, w)
      | Some (index, timeMs) \<Rightarrow>
          (let w1 = write_haptic_node INDEX_NODE (IntV (uint index)) w;
               w2 = snd (on timeMs None w1);
               w3 = (case cb of None \<Rightarrow> w2 | Some c \<Rightarrow> detach (PerformThread c) w2)
           in (Inr timeMs, w3)))"

definition getSupportedEffects :: "Effect list" where
  "getSupportedEffects = [TICK, TEXTURE_TICK, CLICK, HEAVY_CLICK, DOUBLE_CLICK, THUD, POP]"

section \<open>compose\<close>

definition getSupportedPrimitives :: "CompositePrimitive list" where
  "getSupportedPrimitives =
     [NOOP, P_CLICK, P_THUD, SPIN, QUICK_RISE, SLOW_RISE, QUICK_FALL, LIGHT_TICK, LOW_TICK]"

text \<open>The validation loop of \<open>compose\<close>: the exception of the first return it reaches.\<close>

fun compose_loop :: "CompositePrimitive list \<Rightarrow> CompositeEffect list \<Rightarrow> exception option" where
  "compose_loop supported [] = None"
| "compose_loop supported (e # es) =
     (if COMPOSE_DELAY_MAX_MS <s delayMs e then Some EX_ILLEGAL_ARGUMENT
      else if flt (scale e) (Finite 0) \<or> fgt (scale e) (Finite 1)
        then Some EX_ILLEGAL_ARGUMENT
      else if primitive e \<notin> set supported then Some EX_UNSUPPORTED_OPERATION
      else compose_loop supported es)"

definition compose ::
  "CompositeEffect list \<Rightarrow> callback option \<Rightarrow> world \<Rightarrow> (exception + unit) \<times> world"
where
  "compose composite cb w =
     (if length composite > unat COMPOSE_SIZE_MAX then (Inl EX_ILLEGAL_ARGUMENT, w)
      else case compose_loop getSupportedPrimitives composite of
        Some ex \<Rightarrow> (Inl ex, w)
      | None \<Rightarrow> (Inr (), detach (ComposeThread composite cb) w))"

section \<open>composePwle\<close>

definition getPwleCompositionSizeMax :: int32 where
  "getPwleCompositionSizeMax = COMPOSE_PWLE_SIZE_MAX"

text \<open>
  The locals of \<open>composePwle\<close> that its loop updates. \<open>segmentIdx\<close> is an \<open>int\<close> of the
  source; it grows by at most two per segment and a composition has at most 127
  segments, so it cannot overflow. \<open>totalDuration\<close> is a \<open>uint32_t\<close> and wraps.
\<close>

record cursor =
  pwleBuilder :: ostringstream
  prevEndAmplitude :: float
  prevEndFrequency :: float
  segmentIdx :: int
  totalDuration :: uint32

definition resetPreviousEndAmplitudeEndFrequency :: "cursor \<Rightarrow> cursor" where
  "resetPreviousEndAmplitudeEndFrequency c =
     c\<lparr>prevEndAmplitude := Finite (- 1), prevEndFrequency := Finite (- 1)\<rparr>"

definition incrementIndex :: "cursor \<Rightarrow> cursor" where
  "incrementIndex c = c\<lparr>segmentIdx := segmentIdx c + 1\<rparr>"

definition constructActiveDefaults :: "ostringstream \<Rightarrow> int \<Rightarrow> ostringstream" where
  "constructActiveDefaults b idx =
     b @ [StrV '',C'', IntV idx, StrV '':1'']
       @ [StrV '',B'', IntV idx, StrV '':0'']
       @ [StrV '',AR'', IntV idx, StrV '':0'']
       @ [StrV '',V'', IntV idx, StrV '':0'']"

definition constructActiveSegment ::
  "ostringstream \<Rightarrow> int \<Rightarrow> int32 \<Rightarrow> float \<Rightarrow> float \<Rightarrow> ostringstream"
where
  "constructActiveSegment b idx dur amplitude frequency =
     constructActiveDefaults
       (b @ [StrV '',T'', IntV idx, StrV '':'', IntV (sint dur)]
          @ [StrV '',L'', IntV idx, StrV '':'', FloatV amplitude]
          @ [StrV '',F'', IntV idx, StrV '':'', FloatV frequency]) idx"

definition constructBrakingSegment ::
  "ostringstream \<Rightarrow> int \<Rightarrow> int32 \<Rightarrow> Braking \<Rightarrow> ostringstream"
where
  "constructBrakingSegment b idx dur brakingType =
     b @ [StrV '',T'', IntV idx, StrV '':'', IntV (sint dur)]
       @ [StrV '',L'', IntV idx, StrV '':'', IntV 0]
       @ [StrV '',F'', IntV idx, StrV '':'', IntV 0]
       @ [StrV '',C'', IntV idx, StrV '':0'']
       @ [StrV '',B'', IntV idx, StrV '':'', IntV (sint brakingType)]
       @ [StrV '',AR'', IntV idx, StrV '':0'']
       @ [StrV '',V'', IntV idx, StrV '':0'']"

text \<open>The body of the loop of \<open>composePwle\<close>, for one segment.\<close>

fun pwle_segment :: "PrimitivePwle \<Rightarrow> cursor \<Rightarrow> exception + cursor" where
  "pwle_segment (active a) c =
     (if duration a <s 0 \<or> COMPOSE_PWLE_PRIMITIVE_DURATION_MAX_MS <s duration a
        then Inl EX_ILLEGAL_ARGUMENT
      else if flt (startAmplitude a) PWLE_LEVEL_MIN \<or> fgt (startAmplitude a) PWLE_LEVEL_MAX
              \<or> flt (endAmplitude a) PWLE_LEVEL_MIN \<or> fgt (endAmplitude a) PWLE_LEVEL_MAX
        then Inl EX_ILLEGAL_ARGUMENT
      else if flt (startFrequency a) PWLE_FREQUENCY_MIN_HZ
              \<or> fgt (startFrequency a) PWLE_FREQUENCY_MAX_HZ
              \<or> flt (endFrequency a) PWLE_FREQUENCY_MIN_HZ
              \<or> fgt (endFrequency a) PWLE_FREQUENCY_MAX_HZ
        then Inl EX_ILLEGAL_ARGUMENT
      else
        let c1 =
              (if \<not> (feq (startAmplitude a) (prevEndAmplitude c)
                     \<and> feq (startFrequency a) (prevEndFrequency c))
               then incrementIndex
                      (c\<lparr>pwleBuilder :=
                           constructActiveSegment (pwleBuilder c) (segmentIdx c) 0
                             (startAmplitude a) (startFrequency a)\<rparr>)
               else c);
            c2 = incrementIndex
                   (c1\<lparr>pwleBuilder :=
                         constructActiveSegment (pwleBuilder c1) (segmentIdx c1) (duration a)
                           (endAmplitude a) (endFrequency a)\<rparr>)
        in Inr (c2\<lparr>prevEndAmplitude := endAmplitude a,
                   prevEndFrequency := endFrequency a,
                   totalDuration := totalDuration c2 + duration a\<rparr>))"
| "pwle_segment (braking_seg b) c =
     (if CLAB <s braking b then Inl EX_ILLEGAL_ARGUMENT
      else if COMPOSE_PWLE_PRIMITIVE_DURATION_MAX_MS <s b_duration b
        then Inl EX_ILLEGAL_ARGUMENT
      else
        let c1 = incrementIndex
                   (c\<lparr>pwleBuilder :=
                        constructBrakingSegment (pwleBuilder c) (segmentIdx c) 0 (braking b)\<rparr>);
            c2 = incrementIndex
                   (c1\<lparr>pwleBuilder :=
                         constructBrakingSegment (pwleBuilder c1) (segmentIdx c1)
                           (b_duration b) (braking b)\<rparr>);
            c3 = resetPreviousEndAmplitudeEndFrequency c2
        in Inr (c3\<lparr>totalDuration := totalDuration c3 + b_duration b\<rparr>))"

text \<open>The loop: it returns at the first segment that fails a check.\<close>

fun pwle_loop :: "PrimitivePwle list \<Rightarrow> cursor \<Rightarrow> exception + cursor" where
  "pwle_loop [] c = Inr c"
| "pwle_loop (e # es) c =
     (case pwle_segment e c of Inl ex \<Rightarrow> Inl ex | Inr c' \<Rightarrow> pwle_loop es c')"

text \<open>
  The locals as they are when the loop starts: the stream holds the header, and the
  two floats, declared without a value, have been reset.
\<close>

definition cursor0 :: cursor where
  "cursor0 =
     resetPreviousEndAmplitudeEndFrequency
       \<lparr>pwleBuilder = [StrV ''S:0,WF:4,RP:0,WT:0''], prevEndAmplitude = NaN,
        prevEndFrequency = NaN, segmentIdx = 0, totalDuration = 0\<rparr>"

definition composePwle ::
  "PrimitivePwle list \<Rightarrow> callback option \<Rightarrow> world \<Rightarrow> (exception + unit) \<times> world"
where
  "composePwle composite cb w =
     (if length composite \<le> 0 \<or> length composite > unat getPwleCompositionSizeMax
        then (Inl EX_ILLEGAL_ARGUMENT, w)
      else case pwle_loop composite cursor0 of
        Inl ex \<Rightarrow> (Inl ex, w)
      | Inr c \<Rightarrow> (Inr (), detach (ComposePwleThread (totalDuration c) cb) w))"

section \<open>Notions used in the statements\<close>

text \<open>
  The segment tokens of the command protocol, written out field by field and
  independently of the functions above: for the segment index \<open>n\<close> a token has the
  fields \<open>Tn\<close> (duration), \<open>Ln\<close> (level), \<open>Fn\<close> (frequency), \<open>Cn\<close> (chirp), \<open>Bn\<close>
  (braking code), \<open>ARn\<close> and \<open>Vn\<close>, each after a comma. An active token has chirp 1
  and braking code 0; a braking token has level 0, frequency 0, chirp 0 and its
  braking code.
\<close>

definition spec_active_token :: "int \<Rightarrow> int \<Rightarrow> float \<Rightarrow> float \<Rightarrow> item list" where
  "spec_active_token n dur level freq =
     [StrV '',T'', IntV n, StrV '':'', IntV dur,
      StrV '',L'', IntV n, StrV '':'', FloatV level,
      StrV '',F'', IntV n, StrV '':'', FloatV freq,
      StrV '',C'', IntV n, StrV '':1'',
      StrV '',B'', IntV n, StrV '':0'',
      StrV '',AR'', IntV n, StrV '':0'',
      StrV '',V'', IntV n, StrV '':0'']"

definition spec_braking_token :: "int \<Rightarrow> int \<Rightarrow> int \<Rightarrow> item list" where
  "spec_braking_token n dur code =
     [StrV '',T'', IntV n, StrV '':'', IntV dur,
      StrV '',L'', IntV n, StrV '':'', IntV 0,
      StrV '',F'', IntV n, StrV '':'', IntV 0,
      StrV '',C'', IntV n, StrV '':0'',
      StrV '',B'', IntV n, StrV '':'', IntV code,
      StrV '',AR'', IntV n, StrV '':0'',
      StrV '',V'', IntV n, StrV '':0'']"

definition header :: item where
  "header = StrV ''S:0,WF:4,RP:0,WT:0''"

text \<open>The start pair of an active segment equals a given amplitude/frequency pair.\<close>

definition continues :: "ActivePwle \<Rightarrow> float \<Rightarrow> float \<Rightarrow> bool" where
  "continues a amplitude frequency =
     (feq (startAmplitude a) amplitude \<and> feq (startFrequency a) frequency)"

text \<open>
  The encoder as the specification describes it, a function of the segments, of the
  previous end pair and of the next segment index: an active segment gives its real
  token, after a setup token when its start pair differs from the previous end pair;
  a braking segment gives two tokens and the sentinel pair to what follows.
\<close>

fun spec_tokens :: "float \<Rightarrow> float \<Rightarrow> int \<Rightarrow> PrimitivePwle list \<Rightarrow> item list" where
  "spec_tokens pa pf n [] = []"
| "spec_tokens pa pf n (active a # es) =
     (if continues a pa pf
      then spec_active_token n (sint (duration a)) (endAmplitude a) (endFrequency a)
           @ spec_tokens (endAmplitude a) (endFrequency a) (n + 1) es
      else spec_active_token n 0 (startAmplitude a) (startFrequency a)
           @ spec_active_token (n + 1) (sint (duration a)) (endAmplitude a) (endFrequency a)
           @ spec_tokens (endAmplitude a) (endFrequency a) (n + 2) es)"
| "spec_tokens pa pf n (braking_seg b # es) =
     spec_braking_token n 0 (sint (braking b))
     @ spec_braking_token (n + 1) (sint (b_duration b)) (sint (braking b))
     @ spec_tokens (Finite (- 1)) (Finite (- 1)) (n + 2) es"

text \<open>A float lies in the closed interval between two numbers; a NaN lies in none.\<close>

fun in_interval :: "real \<Rightarrow> real \<Rightarrow> float \<Rightarrow> bool" where
  "in_interval lo hi (Finite r) = (lo \<le> r \<and> r \<le> hi)"
| "in_interval lo hi PosInf = False"
| "in_interval lo hi NegInf = False"
| "in_interval lo hi NaN = False"

fun is_nan :: "float \<Rightarrow> bool" where
  "is_nan NaN = True"
| "is_nan (Finite r) = False"
| "is_nan PosInf = False"
| "is_nan NegInf = False"

text \<open>The ranges the specification gives for the fields of a segment.\<close>

fun spec_segment_in_range :: "PrimitivePwle \<Rightarrow> bool" where
  "spec_segment_in_range (active a) =
     (0 \<le> sint (duration a) \<and> sint (duration a) \<le> 16383
      \<and> in_interval 0 1 (startAmplitude a) \<and> in_interval 0 1 (endAmplitude a)
      \<and> in_interval 140 160 (startFrequency a) \<and> in_interval 140 160 (endFrequency a))"
| "spec_segment_in_range (braking_seg b) =
     (sint (braking b) \<le> sint CLAB \<and> sint (b_duration b) \<le> 16383)"

text \<open>The sum of the declared durations of the segments, as a number.\<close>

fun declared_duration :: "PrimitivePwle \<Rightarrow> int" where
  "declared_duration (active a) = sint (duration a)"
| "declared_duration (braking_seg b) = sint (b_duration b)"

definition declared_total :: "PrimitivePwle list \<Rightarrow> int" where
  "declared_total composite = sum_list (map declared_duration composite)"

text \<open>
  The entries of a primitive composition as the specification sorts them: an entry
  is valid when its delay is at most 1000, its scale lies in [0, 1] and its primitive
  is supported; it has an invalid argument when its delay is above 1000 or its scale
  is a number, or an infinity, outside [0, 1]; it is unsupported when delay and scale
  are in range and the primitive is not in the supported set. An entry whose delay is
  in range and whose scale is a NaN is none of the three.
\<close>

definition entry_valid :: "CompositeEffect \<Rightarrow> bool" where
  "entry_valid e =
     (sint (delayMs e) \<le> 1000 \<and> in_interval 0 1 (scale e)
      \<and> primitive e \<in> set getSupportedPrimitives)"

definition entry_invalid_argument :: "CompositeEffect \<Rightarrow> bool" where
  "entry_invalid_argument e =
     (1000 < sint (delayMs e)
      \<or> (\<not> is_nan (scale e) \<and> \<not> in_interval 0 1 (scale e)))"

definition entry_unsupported :: "CompositeEffect \<Rightarrow> bool" where
  "entry_unsupported e =
     (sint (delayMs e) \<le> 1000 \<and> in_interval 0 1 (scale e)
      \<and> primitive e \<notin> set getSupportedPrimitives)"

section \<open>Sample inputs\<close>

definition world0 :: world where
  "world0 = \<lparr>nodes = [], threads = []\<rparr>"

definition ramp_up :: ActivePwle where
  "ramp_up = \<lparr>startAmplitude = Finite 0, startFrequency = Finite 150,
     endAmplitude = Finite (1 / 2), endFrequency = Finite 150, duration = 100\<rparr>"

definition ramp_on :: ActivePwle where
  "ramp_on = \<lparr>startAmplitude = Finite (1 / 2), startFrequency = Finite 150,
     endAmplitude = Finite 1, endFrequency = Finite 150, duration = 100\<rparr>"

definition ramp_down :: ActivePwle where
  "ramp_down = \<lparr>startAmplitude = Finite 1, startFrequency = Finite 160,
     endAmplitude = Finite 0, endFrequency = Finite 140, duration = 30\<rparr>"

definition brake_clab :: BrakingPwle where
  "brake_clab = \<lparr>braking = CLAB, b_duration = 50\<rparr>"

definition brake_negative :: BrakingPwle where
  "brake_negative = \<lparr>braking = NONE, b_duration = - 1\<rparr>"

definition click_entry :: CompositeEffect where
  "click_entry = \<lparr>delayMs = 10, primitive = P_CLICK, scale = Finite (1 / 2)\<rparr>"

definition unsupported_entry :: CompositeEffect where
  "unsupported_entry = \<lparr>delayMs = 0, primitive = 99, scale = Finite (1 / 2)\<rparr>"

definition long_delay_entry :: CompositeEffect where
  "long_delay_entry = \<lparr>delayMs = 2000, primitive = P_CLICK, scale = Finite (1 / 2)\<rparr>"

definition loud_entry :: CompositeEffect where
  "loud_entry = \<lparr>delayMs = 0, primitive = P_CLICK, scale = Finite 2\<rparr>"

text \<open>
  The locals after \<open>ramp_up\<close>, after \<open>ramp_up\<close> and \<open>ramp_on\<close>, and after
  \<open>ramp_up\<close>, \<open>ramp_on\<close> and \<open>ramp_down\<close>.
\<close>

definition after_ramp_up :: cursor where
  "after_ramp_up =
     \<lparr>pwleBuilder = header # spec_active_token 0 0 (Finite 0) (Finite 150)
        @ spec_active_token 1 100 (Finite (1 / 2)) (Finite 150),
      prevEndAmplitude = Finite (1 / 2), prevEndFrequency = Finite 150,
      segmentIdx = 2, totalDuration = 100\<rparr>"

definition after_ramp_on :: cursor where
  "after_ramp_on =
     \<lparr>pwleBuilder = header # spec_active_token 0 0 (Finite 0) (Finite 150)
        @ spec_active_token 1 100 (Finite (1 / 2)) (Finite 150)
        @ spec_active_token 2 100 (Finite 1) (Finite 150),
      prevEndAmplitude = Finite 1, prevEndFrequency = Finite 150,
      segmentIdx = 3, totalDuration = 200\<rparr>"

definition after_ramp_down :: cursor where
  "after_ramp_down =
     \<lparr>pwleBuilder = header # spec_active_token 0 0 (Finite 0) (Finite 150)
        @ spec_active_token 1 100 (Finite (1 / 2)) (Finite 150)
        @ spec_active_token 2 100 (Finite 1) (Finite 150)
        @ spec_active_token 3 0 (Finite 1) (Finite 160)
        @ spec_active_token 4 30 (Finite 0) (Finite 140),
      prevEndAmplitude = Finite 0, prevEndFrequency = Finite 140,
      segmentIdx = 5, totalDuration = 230\<rparr>"

text \<open>
  The locals after \<open>ramp_up\<close> and \<open>brake_clab\<close>, and after \<open>ramp_up\<close>,
  \<open>brake_clab\<close> and \<open>ramp_on\<close>.
\<close>

definition after_ramp_up_brake :: cursor where
  "after_ramp_up_brake =
     \<lparr>pwleBuilder = header # spec_active_token 0 0 (Finite 0) (Finite 150)
        @ spec_active_token 1 100 (Finite (1 / 2)) (Finite 150)
        @ spec_braking_token 2 0 1 @ spec_braking_token 3 50 1,
      prevEndAmplitude = Finite (- 1), prevEndFrequency = Finite (- 1),
      segmentIdx = 4, totalDuration = 150\<rparr>"

definition after_ramp_up_brake_ramp_on :: cursor where
  "after_ramp_up_brake_ramp_on =
     \<lparr>pwleBuilder = header # spec_active_token 0 0 (Finite 0) (Finite 150)
        @ spec_active_token 1 100 (Finite (1 / 2)) (Finite 150)
        @ spec_braking_token 2 0 1 @ spec_braking_token 3 50 1
        @ spec_active_token 4 0 (Finite (1 / 2)) (Finite 150)
        @ spec_active_token 5 100 (Finite 1) (Finite 150),
      prevEndAmplitude = Finite 1, prevEndFrequency = Finite 150,
      segmentIdx = 6, totalDuration = 250\<rparr>"

section \<open>Basic facts\<close>

lemmas limits = COMPOSE_DELAY_MAX_MS_def COMPOSE_SIZE_MAX_def COMPOSE_PWLE_SIZE_MAX_def
  COMPOSE_PWLE_PRIMITIVE_DURATION_MAX_MS_def PWLE_LEVEL_MIN_def PWLE_LEVEL_MAX_def
  PWLE_FREQUENCY_MIN_HZ_def PWLE_FREQUENCY_MAX_HZ_def getPwleCompositionSizeMax_def
  NONE_def CLAB_def word_sless_alt fgt_def

lemmas effects = CLICK_def DOUBLE_CLICK_def TICK_def THUD_def POP_def HEAVY_CLICK_def
  TEXTURE_TICK_def

lemmas primitives = NOOP_def P_CLICK_def P_THUD_def SPIN_def QUICK_RISE_def SLOW_RISE_def
  QUICK_FALL_def LIGHT_TICK_def LOW_TICK_def getSupportedPrimitives_def

lemmas waveforms = WAVEFORM_TICK_EFFECT_INDEX_def WAVEFORM_POP_EFFECT_MS_def
  WAVEFORM_TICK_EFFECT_MS_def

lemmas samples = ramp_up_def ramp_on_def ramp_down_def brake_clab_def cursor0_def
  header_def incrementIndex_def resetPreviousEndAmplitudeEndFrequency_def
  constructActiveSegment_def constructActiveDefaults_def constructBrakingSegment_def
  spec_active_token_def spec_braking_token_def continues_def Let_def

lemmas entries = unsupported_entry_def long_delay_entry_def click_entry_def loud_entry_def
  entry_valid_def entry_invalid_argument_def entry_unsupported_def primitives

subsection \<open>The emitters write the tokens of the protocol\<close>

lemma constructActiveSegment_append:
  "constructActiveSegment b idx dur amplitude frequency
     = b @ spec_active_token idx (sint dur) amplitude frequency"
  by (simp add: spec_active_token_def constructActiveSegment_def constructActiveDefaults_def)

lemma constructBrakingSegment_append:
  "constructBrakingSegment b idx dur t = b @ spec_braking_token idx (sint dur) (sint t)"
  by (simp add: spec_braking_token_def constructBrakingSegment_def)

text \<open>One turn of the loop on an active segment that passes its checks.\<close>

lemma active_step:
  "pwle_segment (active a) c = Inr c1 \<Longrightarrow>
     c1 = c\<lparr>pwleBuilder := pwleBuilder c
              @ (if continues a (prevEndAmplitude c) (prevEndFrequency c) then []
                 else spec_active_token (segmentIdx c) 0 (startAmplitude a)
                        (startFrequency a))
              @ spec_active_token
                  (if continues a (prevEndAmplitude c) (prevEndFrequency c)
                   then segmentIdx c else segmentIdx c + 1)
                  (sint (duration a)) (endAmplitude a) (endFrequency a),
            prevEndAmplitude := endAmplitude a,
            prevEndFrequency := endFrequency a,
            segmentIdx := (if continues a (prevEndAmplitude c) (prevEndFrequency c)
                           then segmentIdx c + 1 else segmentIdx c + 2),
            totalDuration := totalDuration c + duration a\<rparr>"
  by (auto simp: continues_def incrementIndex_def constructActiveSegment_append Let_def
           split: if_splits)

text \<open>One turn of the loop on a braking segment that passes its checks.\<close>

lemma braking_step:
  "pwle_segment (braking_seg b) c = Inr c1 \<Longrightarrow>
     c1 = c\<lparr>pwleBuilder := pwleBuilder c
              @ spec_braking_token (segmentIdx c) 0 (sint (braking b))
              @ spec_braking_token (segmentIdx c + 1) (sint (b_duration b))
                  (sint (braking b)),
            prevEndAmplitude := Finite (- 1),
            prevEndFrequency := Finite (- 1),
            segmentIdx := segmentIdx c + 2,
            totalDuration := totalDuration c + b_duration b\<rparr>"
  by (auto simp: incrementIndex_def constructBrakingSegment_append Let_def
        resetPreviousEndAmplitudeEndFrequency_def split: if_splits)

text \<open>The fields of the locals after an active segment, one by one.\<close>

lemma active_step_fields:
  assumes "pwle_segment (active a) c = Inr c1"
  shows "pwleBuilder c1 = pwleBuilder c
           @ (if continues a (prevEndAmplitude c) (prevEndFrequency c) then []
              else spec_active_token (segmentIdx c) 0 (startAmplitude a) (startFrequency a))
           @ spec_active_token (segmentIdx c1 - 1) (sint (duration a)) (endAmplitude a)
               (endFrequency a)"
    and "segmentIdx c1 = segmentIdx c
           + (if continues a (prevEndAmplitude c) (prevEndFrequency c) then 1 else 2)"
    and "prevEndAmplitude c1 = endAmplitude a"
    and "prevEndFrequency c1 = endFrequency a"
proof -
  note s = active_step [OF assms]
  show "pwleBuilder c1 = pwleBuilder c
           @ (if continues a (prevEndAmplitude c) (prevEndFrequency c) then []
              else spec_active_token (segmentIdx c) 0 (startAmplitude a) (startFrequency a))
           @ spec_active_token (segmentIdx c1 - 1) (sint (duration a)) (endAmplitude a)
               (endFrequency a)"
    by (subst (1 2) s) (simp add: add.commute)
  show "segmentIdx c1 = segmentIdx c
           + (if continues a (prevEndAmplitude c) (prevEndFrequency c) then 1 else 2)"
    by (subst s) simp
  show "prevEndAmplitude c1 = endAmplitude a"
    by (subst s) simp
  show "prevEndFrequency c1 = endFrequency a"
    by (subst s) simp
qed

lemma braking_step_fields:
  assumes "pwle_segment (braking_seg b) c = Inr c1"
  shows "pwleBuilder c1 = pwleBuilder c
           @ spec_braking_token (segmentIdx c) 0 (sint (braking b))
           @ spec_braking_token (segmentIdx c + 1) (sint (b_duration b)) (sint (braking b))"
    and "segmentIdx c1 = segmentIdx c + 2"
    and "prevEndAmplitude c1 = Finite (- 1)"
    and "prevEndFrequency c1 = Finite (- 1)"
  by (subst braking_step [OF assms], simp)+

lemma perform_supported:
  "effect_waveform effect = Some (index, timeMs) \<Longrightarrow>
     fst (perform effect strength cb w) = Inr timeMs
     \<and> nodes (snd (perform effect strength cb w))
         = nodes w @ [(INDEX_NODE, IntV (uint index)), (DURATION_NODE, IntV (sint timeMs)),
                      (ACTIVATE_NODE, IntV 1)]"
  by (cases cb) (simp_all add: perform_def on_def write_haptic_node_def detach_def Let_def)

subsection \<open>Floats against the limits\<close>

lemma in_interval_compare:
  "in_interval lo hi x \<Longrightarrow> \<not> flt x (Finite lo) \<and> \<not> fgt x (Finite hi)"
  by (cases x) (auto simp: fgt_def)

lemma outside_interval_compare:
  "\<not> is_nan x \<Longrightarrow> \<not> in_interval lo hi x \<Longrightarrow> flt x (Finite lo) \<or> fgt x (Finite hi)"
  by (cases x) (auto simp: fgt_def)

lemma active_accepted_start:
  "pwle_segment (active a) c = Inr c1 \<Longrightarrow> \<not> flt (startAmplitude a) (Finite 0)"
  by (auto simp: limits split: if_splits)

text \<open>A start amplitude that is not below 0 never equals the sentinel -1.\<close>

lemma not_continues_sentinel:
  "\<not> flt (startAmplitude a) (Finite 0) \<Longrightarrow> \<not> continues a (Finite (- 1)) f"
  by (cases "startAmplitude a") (simp_all add: continues_def)

subsection \<open>The loop of composePwle\<close>

lemma pwle_loop_append:
  "pwle_loop (xs @ ys) c =
     (case pwle_loop xs c of Inl ex \<Rightarrow> Inl ex | Inr c' \<Rightarrow> pwle_loop ys c')"
  by (induction xs arbitrary: c) (simp_all split: sum.splits)

lemma pwle_loop_split:
  "pwle_loop (pre @ e # post) c0 = Inr cf \<Longrightarrow>
     \<exists>c c1. pwle_loop pre c0 = Inr c \<and> pwle_segment e c = Inr c1
       \<and> pwle_loop (pre @ [e]) c0 = Inr c1 \<and> pwle_loop post c1 = Inr cf"
  by (auto simp: pwle_loop_append split: sum.splits)

lemma composePwle_accepted:
  "fst (composePwle composite cb w) = Inr () \<Longrightarrow>
     \<exists>cf. pwle_loop composite cursor0 = Inr cf
       \<and> snd (composePwle composite cb w)
           = w\<lparr>threads := threads w @ [ComposePwleThread (totalDuration cf) cb]\<rparr>
       \<and> 1 \<le> length composite \<and> length composite \<le> 127"
  by (auto simp: composePwle_def detach_def limits Suc_le_eq split: if_splits sum.splits)

lemma in_range_segment_accepted:
  "spec_segment_in_range e \<Longrightarrow> \<exists>c1. pwle_segment e c = Inr c1"
proof (cases e)
  case (active a)
  assume "spec_segment_in_range e"
  with active have d: "0 \<le> sint (duration a)" "sint (duration a) \<le> 16383"
    and f: "in_interval 0 1 (startAmplitude a)" "in_interval 0 1 (endAmplitude a)"
      "in_interval 140 160 (startFrequency a)" "in_interval 140 160 (endFrequency a)"
    by simp_all
  from d f [THEN in_interval_compare] active show ?thesis
    by (simp add: limits Let_def)
next
  case (braking_seg b)
  assume "spec_segment_in_range e"
  with braking_seg show ?thesis
    by (simp add: limits Let_def)
qed

lemma in_range_loop_accepted:
  "\<forall>e\<in>set es. spec_segment_in_range e \<Longrightarrow> \<exists>c'. pwle_loop es c = Inr c'"
proof (induction es arbitrary: c)
  case Nil
  show ?case by simp
next
  case (Cons e es)
  then have "spec_segment_in_range e" by simp
  then obtain c1 where "pwle_segment e c = Inr c1"
    using in_range_segment_accepted by blast
  moreover obtain c' where "pwle_loop es c1 = Inr c'"
    using Cons by fastforce
  ultimately show ?case by simp
qed

text \<open>
  The loop refines the encoder of the specification: what it appends to the stream
  is the token sequence of the segments, from the pair and the index it started with.
\<close>

lemma pwle_loop_tokens:
  "pwle_loop es c = Inr c' \<Longrightarrow>
     pwleBuilder c' = pwleBuilder c
       @ spec_tokens (prevEndAmplitude c) (prevEndFrequency c) (segmentIdx c) es"
proof (induction es arbitrary: c)
  case Nil
  then show ?case by simp
next
  case (Cons e es)
  then obtain c1 where s: "pwle_segment e c = Inr c1" and l: "pwle_loop es c1 = Inr c'"
    by (auto split: sum.splits)
  note ih = Cons.IH [OF l]
  show ?case
  proof (cases e)
    case (active a)
    with s have sa: "pwle_segment (active a) c = Inr c1" by simp
    from ih active_step_fields [OF sa] active show ?thesis
      by (simp add: add.commute)
  next
    case (braking_seg b)
    with s have sb: "pwle_segment (braking_seg b) c = Inr c1" by simp
    from ih braking_step_fields [OF sb] braking_seg show ?thesis
      by simp
  qed
qed

subsection \<open>The total duration\<close>

lemma pwle_segment_total:
  "pwle_segment e c = Inr c1 \<Longrightarrow>
     totalDuration c1 = totalDuration c + word_of_int (declared_duration e)
     \<and> declared_duration e \<le> 16383"
proof (cases e)
  case (active a)
  assume "pwle_segment e c = Inr c1"
  with active have s: "pwle_segment (active a) c = Inr c1" by simp
  then have "sint (duration a) \<le> 16383"
    by (auto simp: limits split: if_splits)
  moreover have "totalDuration c1 = totalDuration c + duration a"
    by (subst active_step [OF s]) simp
  ultimately show ?thesis using active by simp
next
  case (braking_seg b)
  assume "pwle_segment e c = Inr c1"
  with braking_seg have s: "pwle_segment (braking_seg b) c = Inr c1" by simp
  then have "sint (b_duration b) \<le> 16383"
    by (auto simp: limits split: if_splits)
  moreover have "totalDuration c1 = totalDuration c + b_duration b"
    by (subst braking_step [OF s]) simp
  ultimately show ?thesis using braking_seg by simp
qed

lemma pwle_loop_total:
  "pwle_loop es c = Inr c' \<Longrightarrow>
     totalDuration c' = totalDuration c + word_of_int (declared_total es)
     \<and> declared_total es \<le> 16383 * int (length es)"
proof (induction es arbitrary: c)
  case Nil
  then show ?case by (simp add: declared_total_def)
next
  case (Cons e es)
  then obtain c1 where s: "pwle_segment e c = Inr c1" and l: "pwle_loop es c1 = Inr c'"
    by (auto split: sum.splits)
  from pwle_segment_total [OF s] Cons.IH [OF l] show ?case
    by (simp add: declared_total_def algebra_simps)
qed

text \<open>
  The total that an accepted composition hands to its completion thread is the sum
  of the declared durations modulo \<open>2 ^ 32\<close>, hence the sum itself unless that sum
  is negative.
\<close>

lemma composePwle_total:
  assumes "fst (composePwle composite cb w) = Inr ()"
  shows "\<exists>t. snd (composePwle composite cb w) = detach (ComposePwleThread t cb) w
           \<and> uint t = declared_total composite mod 2 ^ 32
           \<and> (0 \<le> declared_total composite \<longrightarrow> uint t = declared_total composite)"
proof -
  from assms obtain c where l: "pwle_loop composite cursor0 = Inr c"
    and s: "snd (composePwle composite cb w)
               = detach (ComposePwleThread (totalDuration c) cb) w"
    and n: "length composite \<le> 127"
    by (auto simp: composePwle_def limits split: if_splits sum.splits)
  from pwle_loop_total [OF l]
  have t: "totalDuration c = word_of_int (declared_total composite)"
    and b: "declared_total composite \<le> 16383 * int (length composite)"
    by (simp_all add: cursor0_def resetPreviousEndAmplitudeEndFrequency_def)
  from t have m: "uint (totalDuration c) = declared_total composite mod 2 ^ 32"
    by (simp add: uint_word_of_int take_bit_eq_mod)
  from b n have "declared_total composite < 2 ^ 32" by simp
  with m have "0 \<le> declared_total composite \<Longrightarrow>
      uint (totalDuration c) = declared_total composite"
    by simp
  with s m show ?thesis by blast
qed

subsection \<open>The loop of compose\<close>

lemma entry_valid_passes:
  "entry_valid e \<Longrightarrow>
     compose_loop getSupportedPrimitives (e # es) = compose_loop getSupportedPrimitives es"
  using in_interval_compare [of 0 1 "scale e"]
  by (simp add: entry_valid_def limits)

lemma compose_loop_all_valid:
  "\<forall>e\<in>set es. entry_valid e \<Longrightarrow> compose_loop getSupportedPrimitives es = None"
  by (induction es) (simp_all add: entry_valid_passes del: compose_loop.simps(2))

lemma compose_loop_skips_valid:
  "\<forall>x\<in>set pre. entry_valid x \<Longrightarrow>
     compose_loop getSupportedPrimitives (pre @ es) = compose_loop getSupportedPrimitives es"
  by (induction pre) (simp_all add: entry_valid_passes del: compose_loop.simps(2))

lemma entry_invalid_argument_rejected:
  "entry_invalid_argument e \<Longrightarrow>
     compose_loop getSupportedPrimitives (e # es) = Some EX_ILLEGAL_ARGUMENT"
  using outside_interval_compare [of "scale e" 0 1]
  by (auto simp: entry_invalid_argument_def limits)

lemma entry_unsupported_rejected:
  "entry_unsupported e \<Longrightarrow>
     compose_loop getSupportedPrimitives (e # es) = Some EX_UNSUPPORTED_OPERATION"
  using in_interval_compare [of 0 1 "scale e"]
  by (simp add: entry_unsupported_def limits)

lemma compose_status:
  "length composite \<le> 256 \<Longrightarrow>
     fst (compose composite cb w)
       = (case compose_loop getSupportedPrimitives composite of
            None \<Rightarrow> Inr () | Some ex \<Rightarrow> Inl ex)"
  by (simp add: compose_def limits split: option.splits)

lemmas cursors = after_ramp_up_def after_ramp_on_def after_ramp_down_def
  after_ramp_up_brake_def after_ramp_up_brake_ramp_on_def

section \<open>The claims\<close>

subsection \<open>C1: setup tokens between active segments\<close>

text \<open>
  C1, as stated, at the composition of \<open>ramp_up\<close> (amplitude 0 to 0.5 at 150 Hz)
  and \<open>ramp_on\<close> (amplitude 0.5 to 1 at 150 Hz): the start pair of the second
  segment equals the end pair of the first, no setup token stands between them, and
  yet the segment index advances by 3 across the pair, from 0 to 3, because the first
  segment has a setup token of its own.
\<close>

theorem active_pair_advance_counterexample:
  "continues ramp_on (endAmplitude ramp_up) (endFrequency ramp_up)
   \<and> segmentIdx cursor0 = 0
   \<and> pwle_loop [active ramp_up, active ramp_on] cursor0 =
       Inr \<lparr>pwleBuilder = header # spec_active_token 0 0 (Finite 0) (Finite 150)
              @ spec_active_token 1 100 (Finite (1 / 2)) (Finite 150)
              @ spec_active_token 2 100 (Finite 1) (Finite 150),
            prevEndAmplitude = Finite 1, prevEndFrequency = Finite 150,
            segmentIdx = 3, totalDuration = 200\<rparr>"
  by (simp add: samples limits)

text \<open>
  C1, amended. In a composition that \<open>composePwle\<close> accepts, take any active
  segment \<open>a\<close>, after the segments \<open>pre\<close> and before the segments \<open>post\<close>. The
  command is the header and the tokens of \<open>pre\<close>, then the tokens of \<open>a\<close>, then the
  tokens of \<open>post\<close>. The tokens of \<open>a\<close> are its real token, with its duration and its
  end amplitude and frequency, preceded by a zero-duration setup token with its start
  amplitude and frequency exactly when its start pair differs (by the equality of
  floats) from the previous end pair; the segment index advances by 1 without a setup
  token and by 2 with one, and the previous end pair becomes the end pair of \<open>a\<close>.
  When the next segment is an active segment \<open>b\<close>, the same holds for \<open>b\<close> against
  the end pair of \<open>a\<close>, and, counted from the index of the real token of \<open>a\<close>, the
  index after \<open>b\<close> is 2 further when the pairs are equal and 3 further when they
  differ.
\<close>

theorem active_setup_token_iff_discontinuous:
  assumes "fst (composePwle (pre @ active a # post) cb w) = Inr ()"
  shows "\<exists>c c1 cf.
      pwle_loop pre cursor0 = Inr c
    \<and> pwle_loop (pre @ [active a]) cursor0 = Inr c1
    \<and> pwle_loop (pre @ active a # post) cursor0 = Inr cf
    \<and> pwleBuilder c = header # spec_tokens (Finite (- 1)) (Finite (- 1)) 0 pre
    \<and> pwleBuilder c1 = pwleBuilder c
        @ (if continues a (prevEndAmplitude c) (prevEndFrequency c) then []
           else spec_active_token (segmentIdx c) 0 (startAmplitude a) (startFrequency a))
        @ spec_active_token (segmentIdx c1 - 1) (sint (duration a)) (endAmplitude a)
            (endFrequency a)
    \<and> segmentIdx c1 = segmentIdx c
        + (if continues a (prevEndAmplitude c) (prevEndFrequency c) then 1 else 2)
    \<and> prevEndAmplitude c1 = endAmplitude a \<and> prevEndFrequency c1 = endFrequency a
    \<and> pwleBuilder cf = pwleBuilder c1
        @ spec_tokens (endAmplitude a) (endFrequency a) (segmentIdx c1) post
    \<and> (\<forall>b post'. post = active b # post' \<longrightarrow>
          (\<exists>c2. pwle_loop (pre @ [active a, active b]) cursor0 = Inr c2
             \<and> pwleBuilder c2 = pwleBuilder c1
                 @ (if continues b (endAmplitude a) (endFrequency a) then []
                    else spec_active_token (segmentIdx c1) 0 (startAmplitude b)
                           (startFrequency b))
                 @ spec_active_token (segmentIdx c2 - 1) (sint (duration b))
                     (endAmplitude b) (endFrequency b)
             \<and> segmentIdx c2 = (segmentIdx c1 - 1)
                 + (if continues b (endAmplitude a) (endFrequency a) then 2 else 3)))"
proof -
  from composePwle_accepted [OF assms]
  obtain cf where l: "pwle_loop (pre @ active a # post) cursor0 = Inr cf"
    by blast
  from pwle_loop_split [OF l]
  obtain c c1 where p: "pwle_loop pre cursor0 = Inr c"
    and s: "pwle_segment (active a) c = Inr c1"
    and p1: "pwle_loop (pre @ [active a]) cursor0 = Inr c1"
    and r: "pwle_loop post c1 = Inr cf"
    by blast
  note f = active_step_fields [OF s]
  have hd: "pwleBuilder c = header # spec_tokens (Finite (- 1)) (Finite (- 1)) 0 pre"
    using pwle_loop_tokens [OF p]
    by (simp add: cursor0_def header_def resetPreviousEndAmplitudeEndFrequency_def)
  have tl: "pwleBuilder cf = pwleBuilder c1
        @ spec_tokens (endAmplitude a) (endFrequency a) (segmentIdx c1) post"
    using pwle_loop_tokens [OF r] f(3,4) by simp
  have nxt: "\<exists>c2. pwle_loop (pre @ [active a, active b]) cursor0 = Inr c2
             \<and> pwleBuilder c2 = pwleBuilder c1
                 @ (if continues b (endAmplitude a) (endFrequency a) then []
                    else spec_active_token (segmentIdx c1) 0 (startAmplitude b)
                           (startFrequency b))
                 @ spec_active_token (segmentIdx c2 - 1) (sint (duration b))
                     (endAmplitude b) (endFrequency b)
             \<and> segmentIdx c2 = (segmentIdx c1 - 1)
                 + (if continues b (endAmplitude a) (endFrequency a) then 2 else 3)"
    if "post = active b # post'" for b post'
  proof -
    from r that obtain c2 where sb: "pwle_segment (active b) c1 = Inr c2"
      by (auto split: sum.splits)
    from p1 sb have "pwle_loop ((pre @ [active a]) @ [active b]) cursor0 = Inr c2"
      by (simp only: pwle_loop_append [of "pre @ [active a]"] sum.case pwle_loop.simps)
    then have l2: "pwle_loop (pre @ [active a, active b]) cursor0 = Inr c2"
      by simp
    note g = active_step_fields [OF sb, unfolded f(3,4)]
    from g(2) have "segmentIdx c2 = (segmentIdx c1 - 1)
                 + (if continues b (endAmplitude a) (endFrequency a) then 2 else 3)"
      by simp
    with l2 g(1) show ?thesis by blast
  qed
  from p p1 l hd f tl nxt show ?thesis by blast
qed

theorem active_setup_token_iff_discontinuous_witness:
  "fst (composePwle [active ramp_up, active ramp_on, active ramp_down] (Some 0) world0)
     = Inr ()
   \<and> pwle_loop [active ramp_up] cursor0 = Inr after_ramp_up
   \<and> pwle_loop [active ramp_up, active ramp_on] cursor0 = Inr after_ramp_on
   \<and> pwle_loop [active ramp_up, active ramp_on, active ramp_down] cursor0
       = Inr after_ramp_down
   \<and> continues ramp_on (prevEndAmplitude after_ramp_up) (prevEndFrequency after_ramp_up)
   \<and> pwleBuilder after_ramp_on = pwleBuilder after_ramp_up
       @ spec_active_token 2 100 (Finite 1) (Finite 150)
   \<and> segmentIdx after_ramp_on = segmentIdx after_ramp_up + 1
   \<and> \<not> continues ramp_down (endAmplitude ramp_on) (endFrequency ramp_on)
   \<and> pwleBuilder after_ramp_down = pwleBuilder after_ramp_on
       @ spec_active_token 3 0 (Finite 1) (Finite 160)
       @ spec_active_token 4 30 (Finite 0) (Finite 140)
   \<and> segmentIdx after_ramp_down = (segmentIdx after_ramp_on - 1) + 3"
proof -
  have ok: "fst (composePwle ([active ramp_up] @ active ramp_on # [active ramp_down])
      (Some 0) world0) = Inr ()"
    by (simp add: composePwle_def samples limits)
  have e1: "pwle_loop [active ramp_up] cursor0 = Inr after_ramp_up"
    and e2: "pwle_loop [active ramp_up, active ramp_on] cursor0 = Inr after_ramp_on"
    and e3: "pwle_loop [active ramp_up, active ramp_on, active ramp_down] cursor0
       = Inr after_ramp_down"
    by (simp_all add: samples cursors limits)
  have k: "continues ramp_on (prevEndAmplitude after_ramp_up) (prevEndFrequency after_ramp_up)"
    "\<not> continues ramp_down (endAmplitude ramp_on) (endFrequency ramp_on)"
    by (simp_all add: samples cursors)
  from active_setup_token_iff_discontinuous [OF ok]
  obtain c c1 where "pwle_loop [active ramp_up] cursor0 = Inr c"
    and "pwle_loop ([active ramp_up] @ [active ramp_on]) cursor0 = Inr c1"
    and b1: "pwleBuilder c1 = pwleBuilder c
        @ (if continues ramp_on (prevEndAmplitude c) (prevEndFrequency c) then []
           else spec_active_token (segmentIdx c) 0 (startAmplitude ramp_on)
                  (startFrequency ramp_on))
        @ spec_active_token (segmentIdx c1 - 1) (sint (duration ramp_on))
            (endAmplitude ramp_on) (endFrequency ramp_on)"
    and i1: "segmentIdx c1 = segmentIdx c
        + (if continues ramp_on (prevEndAmplitude c) (prevEndFrequency c) then 1 else 2)"
    and n: "\<forall>b post'. [active ramp_down] = active b # post' \<longrightarrow>
          (\<exists>c2. pwle_loop ([active ramp_up] @ [active ramp_on, active b]) cursor0 = Inr c2
             \<and> pwleBuilder c2 = pwleBuilder c1
                 @ (if continues b (endAmplitude ramp_on) (endFrequency ramp_on) then []
                    else spec_active_token (segmentIdx c1) 0 (startAmplitude b)
                           (startFrequency b))
                 @ spec_active_token (segmentIdx c2 - 1) (sint (duration b))
                     (endAmplitude b) (endFrequency b)
             \<and> segmentIdx c2 = (segmentIdx c1 - 1)
                 + (if continues b (endAmplitude ramp_on) (endFrequency ramp_on)
                    then 2 else 3))"
    by blast
  with e1 e2 have c: "c = after_ramp_up" and c1: "c1 = after_ramp_on"
    by simp_all
  from n obtain c2
    where "pwle_loop ([active ramp_up] @ [active ramp_on, active ramp_down]) cursor0 = Inr c2"
      and b2: "pwleBuilder c2 = pwleBuilder c1
                 @ (if continues ramp_down (endAmplitude ramp_on) (endFrequency ramp_on)
                    then []
                    else spec_active_token (segmentIdx c1) 0 (startAmplitude ramp_down)
                           (startFrequency ramp_down))
                 @ spec_active_token (segmentIdx c2 - 1) (sint (duration ramp_down))
                     (endAmplitude ramp_down) (endFrequency ramp_down)"
      and i2: "segmentIdx c2 = (segmentIdx c1 - 1)
                 + (if continues ramp_down (endAmplitude ramp_on) (endFrequency ramp_on)
                    then 2 else 3)"
    by blast
  with e3 have c2: "c2 = after_ramp_down" by simp
  from b1 i1 k(1) have "pwleBuilder after_ramp_on = pwleBuilder after_ramp_up
       @ spec_active_token 2 100 (Finite 1) (Finite 150)"
    and "segmentIdx after_ramp_on = segmentIdx after_ramp_up + 1"
    unfolding c c1 by (simp_all add: after_ramp_on_def ramp_on_def)
  moreover from b2 i2 k(2) have "pwleBuilder after_ramp_down = pwleBuilder after_ramp_on
       @ spec_active_token 3 0 (Finite 1) (Finite 160)
       @ spec_active_token 4 30 (Finite 0) (Finite 140)"
    and "segmentIdx after_ramp_down = (segmentIdx after_ramp_on - 1) + 3"
    unfolding c1 c2 by (simp_all add: after_ramp_on_def after_ramp_down_def ramp_down_def)
  moreover from ok
  have "fst (composePwle [active ramp_up, active ramp_on, active ramp_down] (Some 0) world0)
     = Inr ()"
    by simp
  ultimately show ?thesis using e1 e2 e3 k by simp
qed

subsection \<open>C2: braking segments\<close>

text \<open>
  C2. In a composition that \<open>composePwle\<close> accepts, take any braking segment \<open>b\<close>,
  after the segments \<open>pre\<close> and before the segments \<open>post\<close>. Whatever the previous
  end pair is, the segment appends exactly two tokens to the command: a token of
  duration 0 and a token of the declared duration, both with level 0, frequency 0 and
  the braking type of \<open>b\<close>. The index advances by 2 and the previous end pair becomes
  (-1, -1). The tokens of \<open>post\<close> follow from that pair; when the next segment is an
  active segment, whatever its start amplitude and frequency, it gets a setup token
  with that start pair before its real token.
\<close>

theorem braking_two_tokens_and_reset:
  assumes "fst (composePwle (pre @ braking_seg b # post) cb w) = Inr ()"
  shows "\<exists>c c1 cf.
      pwle_loop pre cursor0 = Inr c
    \<and> pwle_loop (pre @ [braking_seg b]) cursor0 = Inr c1
    \<and> pwle_loop (pre @ braking_seg b # post) cursor0 = Inr cf
    \<and> pwleBuilder c = header # spec_tokens (Finite (- 1)) (Finite (- 1)) 0 pre
    \<and> pwleBuilder c1 = pwleBuilder c
        @ spec_braking_token (segmentIdx c) 0 (sint (braking b))
        @ spec_braking_token (segmentIdx c + 1) (sint (b_duration b)) (sint (braking b))
    \<and> segmentIdx c1 = segmentIdx c + 2
    \<and> prevEndAmplitude c1 = Finite (- 1) \<and> prevEndFrequency c1 = Finite (- 1)
    \<and> pwleBuilder cf = pwleBuilder c1
        @ spec_tokens (Finite (- 1)) (Finite (- 1)) (segmentIdx c1) post
    \<and> (\<forall>a post'. post = active a # post' \<longrightarrow>
          (\<exists>c2. pwle_loop (pre @ [braking_seg b, active a]) cursor0 = Inr c2
             \<and> pwleBuilder c2 = pwleBuilder c1
                 @ spec_active_token (segmentIdx c1) 0 (startAmplitude a)
                     (startFrequency a)
                 @ spec_active_token (segmentIdx c1 + 1) (sint (duration a))
                     (endAmplitude a) (endFrequency a)
             \<and> segmentIdx c2 = segmentIdx c1 + 2))"
proof -
  from composePwle_accepted [OF assms]
  obtain cf where l: "pwle_loop (pre @ braking_seg b # post) cursor0 = Inr cf"
    by blast
  from pwle_loop_split [OF l]
  obtain c c1 where p: "pwle_loop pre cursor0 = Inr c"
    and s: "pwle_segment (braking_seg b) c = Inr c1"
    and p1: "pwle_loop (pre @ [braking_seg b]) cursor0 = Inr c1"
    and r: "pwle_loop post c1 = Inr cf"
    by blast
  note f = braking_step_fields [OF s]
  have hd: "pwleBuilder c = header # spec_tokens (Finite (- 1)) (Finite (- 1)) 0 pre"
    using pwle_loop_tokens [OF p]
    by (simp add: cursor0_def header_def resetPreviousEndAmplitudeEndFrequency_def)
  have tl: "pwleBuilder cf = pwleBuilder c1
        @ spec_tokens (Finite (- 1)) (Finite (- 1)) (segmentIdx c1) post"
    using pwle_loop_tokens [OF r] f(3,4) by simp
  have nxt: "\<exists>c2. pwle_loop (pre @ [braking_seg b, active a]) cursor0 = Inr c2
             \<and> pwleBuilder c2 = pwleBuilder c1
                 @ spec_active_token (segmentIdx c1) 0 (startAmplitude a)
                     (startFrequency a)
                 @ spec_active_token (segmentIdx c1 + 1) (sint (duration a))
                     (endAmplitude a) (endFrequency a)
             \<and> segmentIdx c2 = segmentIdx c1 + 2"
    if "post = active a # post'" for a post'
  proof -
    from r that obtain c2 where sa: "pwle_segment (active a) c1 = Inr c2"
      by (auto split: sum.splits)
    from p1 sa have "pwle_loop ((pre @ [braking_seg b]) @ [active a]) cursor0 = Inr c2"
      by (simp only: pwle_loop_append [of "pre @ [braking_seg b]"] sum.case pwle_loop.simps)
    then have l2: "pwle_loop (pre @ [braking_seg b, active a]) cursor0 = Inr c2"
      by simp
    have d: "\<not> continues a (Finite (- 1)) (Finite (- 1))"
      by (rule not_continues_sentinel [OF active_accepted_start [OF sa]])
    note g = active_step_fields [OF sa, unfolded f(3,4)]
    from g(2) d have i: "segmentIdx c2 = segmentIdx c1 + 2" by simp
    from g(1) d i have "pwleBuilder c2 = pwleBuilder c1
                 @ spec_active_token (segmentIdx c1) 0 (startAmplitude a)
                     (startFrequency a)
                 @ spec_active_token (segmentIdx c1 + 1) (sint (duration a))
                     (endAmplitude a) (endFrequency a)"
      by (simp add: add.commute)
    with l2 i show ?thesis by blast
  qed
  from p p1 l hd f tl nxt show ?thesis by blast
qed

theorem braking_two_tokens_and_reset_witness:
  "fst (composePwle [active ramp_up, braking_seg brake_clab, active ramp_on] (Some 0) world0)
     = Inr ()
   \<and> pwle_loop [active ramp_up] cursor0 = Inr after_ramp_up
   \<and> pwle_loop [active ramp_up, braking_seg brake_clab] cursor0 = Inr after_ramp_up_brake
   \<and> pwle_loop [active ramp_up, braking_seg brake_clab, active ramp_on] cursor0
       = Inr after_ramp_up_brake_ramp_on
   \<and> continues ramp_on (prevEndAmplitude after_ramp_up) (prevEndFrequency after_ramp_up)
   \<and> pwleBuilder after_ramp_up_brake = pwleBuilder after_ramp_up
       @ spec_braking_token 2 0 1 @ spec_braking_token 3 50 1
   \<and> segmentIdx after_ramp_up_brake = segmentIdx after_ramp_up + 2
   \<and> prevEndAmplitude after_ramp_up_brake = Finite (- 1)
   \<and> prevEndFrequency after_ramp_up_brake = Finite (- 1)
   \<and> pwleBuilder after_ramp_up_brake_ramp_on = pwleBuilder after_ramp_up_brake
       @ spec_active_token 4 0 (Finite (1 / 2)) (Finite 150)
       @ spec_active_token 5 100 (Finite 1) (Finite 150)
   \<and> segmentIdx after_ramp_up_brake_ramp_on = 6"
proof -
  have ok: "fst (composePwle ([active ramp_up] @ braking_seg brake_clab # [active ramp_on])
      (Some 0) world0) = Inr ()"
    by (simp add: composePwle_def samples limits)
  have e1: "pwle_loop [active ramp_up] cursor0 = Inr after_ramp_up"
    and e2: "pwle_loop [active ramp_up, braking_seg brake_clab] cursor0
       = Inr after_ramp_up_brake"
    and e3: "pwle_loop [active ramp_up, braking_seg brake_clab, active ramp_on] cursor0
       = Inr after_ramp_up_brake_ramp_on"
    by (simp_all add: samples cursors limits)
  have k: "continues ramp_on (prevEndAmplitude after_ramp_up) (prevEndFrequency after_ramp_up)"
    by (simp add: samples cursors)
  from braking_two_tokens_and_reset [OF ok]
  obtain c c1 where "pwle_loop [active ramp_up] cursor0 = Inr c"
    and "pwle_loop ([active ramp_up] @ [braking_seg brake_clab]) cursor0 = Inr c1"
    and b1: "pwleBuilder c1 = pwleBuilder c
        @ spec_braking_token (segmentIdx c) 0 (sint (braking brake_clab))
        @ spec_braking_token (segmentIdx c + 1) (sint (b_duration brake_clab))
            (sint (braking brake_clab))"
    and i1: "segmentIdx c1 = segmentIdx c + 2"
    and r1: "prevEndAmplitude c1 = Finite (- 1)" "prevEndFrequency c1 = Finite (- 1)"
    and n: "\<forall>a post'. [active ramp_on] = active a # post' \<longrightarrow>
          (\<exists>c2. pwle_loop ([active ramp_up] @ [braking_seg brake_clab, active a]) cursor0
                  = Inr c2
             \<and> pwleBuilder c2 = pwleBuilder c1
                 @ spec_active_token (segmentIdx c1) 0 (startAmplitude a)
                     (startFrequency a)
                 @ spec_active_token (segmentIdx c1 + 1) (sint (duration a))
                     (endAmplitude a) (endFrequency a)
             \<and> segmentIdx c2 = segmentIdx c1 + 2)"
    by blast
  with e1 e2 have c: "c = after_ramp_up" and c1: "c1 = after_ramp_up_brake"
    by simp_all
  from n obtain c2
    where "pwle_loop ([active ramp_up] @ [braking_seg brake_clab, active ramp_on]) cursor0
             = Inr c2"
      and b2: "pwleBuilder c2 = pwleBuilder c1
                 @ spec_active_token (segmentIdx c1) 0 (startAmplitude ramp_on)
                     (startFrequency ramp_on)
                 @ spec_active_token (segmentIdx c1 + 1) (sint (duration ramp_on))
                     (endAmplitude ramp_on) (endFrequency ramp_on)"
      and i2: "segmentIdx c2 = segmentIdx c1 + 2"
    by blast
  with e3 have c2: "c2 = after_ramp_up_brake_ramp_on" by simp
  from b1 i1 r1 have "pwleBuilder after_ramp_up_brake = pwleBuilder after_ramp_up
       @ spec_braking_token 2 0 1 @ spec_braking_token 3 50 1"
    and "segmentIdx after_ramp_up_brake = segmentIdx after_ramp_up + 2"
    and "prevEndAmplitude after_ramp_up_brake = Finite (- 1)"
    and "prevEndFrequency after_ramp_up_brake = Finite (- 1)"
    unfolding c c1 by (simp_all add: after_ramp_up_def brake_clab_def CLAB_def)
  moreover from b2 i2 have "pwleBuilder after_ramp_up_brake_ramp_on
       = pwleBuilder after_ramp_up_brake
       @ spec_active_token 4 0 (Finite (1 / 2)) (Finite 150)
       @ spec_active_token 5 100 (Finite 1) (Finite 150)"
    and "segmentIdx after_ramp_up_brake_ramp_on = 6"
    unfolding c1 c2 by (simp_all add: after_ramp_up_brake_def ramp_on_def)
  moreover from ok
  have "fst (composePwle [active ramp_up, braking_seg brake_clab, active ramp_on]
      (Some 0) world0) = Inr ()"
    by simp
  ultimately show ?thesis using e1 e2 e3 k by simp
qed

subsection \<open>C3: the total duration\<close>

text \<open>
  C3. For the accepted composition of one braking segment of duration -1, the sum of
  the declared durations is -1, and the completion thread is started with the total
  duration 4294967295: the unsigned total has wrapped.
\<close>

theorem composePwle_total_duration_wraps:
  "declared_total [braking_seg brake_negative] = - 1
   \<and> composePwle [braking_seg brake_negative] None world0
       = (Inr (), \<lparr>nodes = [], threads = [ComposePwleThread 4294967295 None]\<rparr>)"
  by (simp add: composePwle_def brake_negative_def cursor0_def limits world0_def detach_def
        declared_total_def incrementIndex_def resetPreviousEndAmplitudeEndFrequency_def
        Let_def)

subsection \<open>C4: an active segment and a braking segment\<close>

text \<open>
  C4. The composition of one active segment (100 ms, amplitude 0.0 to 0.5, frequency
  150 to 150) and one braking segment (50 ms, CLAB) leaves the loop with the command
  written out below: the header, then four segment tokens whose fields carry the
  indices 0, 1, 2 and 3, namely the setup token (duration 0, amplitude 0, 150 Hz) and
  the real token (100 ms, amplitude 0.5, 150 Hz) of the active segment, then the two
  braking tokens (durations 0 and 50, braking code 1). The segment index ends at 4,
  the total duration is 150, and \<open>composePwle\<close> succeeds, writes nothing else and
  starts the completion thread with 150.
\<close>

theorem composePwle_example_active_braking:
  "pwle_loop [active ramp_up, braking_seg brake_clab] cursor0 =
     Inr \<lparr>pwleBuilder =
            [StrV ''S:0,WF:4,RP:0,WT:0'',
             StrV '',T'', IntV 0, StrV '':'', IntV 0,
             StrV '',L'', IntV 0, StrV '':'', FloatV (Finite 0),
             StrV '',F'', IntV 0, StrV '':'', FloatV (Finite 150),
             StrV '',C'', IntV 0, StrV '':1'', StrV '',B'', IntV 0, StrV '':0'',
             StrV '',AR'', IntV 0, StrV '':0'', StrV '',V'', IntV 0, StrV '':0'',
             StrV '',T'', IntV 1, StrV '':'', IntV 100,
             StrV '',L'', IntV 1, StrV '':'', FloatV (Finite (1 / 2)),
             StrV '',F'', IntV 1, StrV '':'', FloatV (Finite 150),
             StrV '',C'', IntV 1, StrV '':1'', StrV '',B'', IntV 1, StrV '':0'',
             StrV '',AR'', IntV 1, StrV '':0'', StrV '',V'', IntV 1, StrV '':0'',
             StrV '',T'', IntV 2, StrV '':'', IntV 0,
             StrV '',L'', IntV 2, StrV '':'', IntV 0,
             StrV '',F'', IntV 2, StrV '':'', IntV 0,
             StrV '',C'', IntV 2, StrV '':0'', StrV '',B'', IntV 2, StrV '':'', IntV 1,
             StrV '',AR'', IntV 2, StrV '':0'', StrV '',V'', IntV 2, StrV '':0'',
             StrV '',T'', IntV 3, StrV '':'', IntV 50,
             StrV '',L'', IntV 3, StrV '':'', IntV 0,
             StrV '',F'', IntV 3, StrV '':'', IntV 0,
             StrV '',C'', IntV 3, StrV '':0'', StrV '',B'', IntV 3, StrV '':'', IntV 1,
             StrV '',AR'', IntV 3, StrV '':0'', StrV '',V'', IntV 3, StrV '':0''],
          prevEndAmplitude = Finite (- 1), prevEndFrequency = Finite (- 1),
          segmentIdx = 4, totalDuration = 150\<rparr>
   \<and> composePwle [active ramp_up, braking_seg brake_clab] cb w
       = (Inr (), w\<lparr>threads := threads w @ [ComposePwleThread 150 cb]\<rparr>)"
  by (simp add: composePwle_def detach_def samples limits)

subsection \<open>C5: the size and the ranges of a PWLE composition\<close>

text \<open>
  C5. \<open>composePwle\<close> returns \<open>EX_ILLEGAL_ARGUMENT\<close> for a composition of length 0
  and for one of more than 127 segments; for a composition of 1 to 127 segments whose
  fields are all in range (active: duration in [0, 16383], amplitudes in [0, 1],
  frequencies in [140, 160]; braking: type at most CLAB, duration at most 16383) it
  succeeds.
\<close>

theorem composePwle_size_and_ranges:
  "(length composite = 0 \<longrightarrow> fst (composePwle composite cb w) = Inl EX_ILLEGAL_ARGUMENT)
   \<and> (127 < length composite \<longrightarrow>
        fst (composePwle composite cb w) = Inl EX_ILLEGAL_ARGUMENT)
   \<and> (1 \<le> length composite \<and> length composite \<le> 127
        \<and> (\<forall>e\<in>set composite. spec_segment_in_range e) \<longrightarrow>
        fst (composePwle composite cb w) = Inr ())"
proof (intro conjI impI)
  assume "length composite = 0"
  then show "fst (composePwle composite cb w) = Inl EX_ILLEGAL_ARGUMENT"
    by (simp add: composePwle_def)
next
  assume "127 < length composite"
  then show "fst (composePwle composite cb w) = Inl EX_ILLEGAL_ARGUMENT"
    by (simp add: composePwle_def limits)
next
  assume h: "1 \<le> length composite \<and> length composite \<le> 127
        \<and> (\<forall>e\<in>set composite. spec_segment_in_range e)"
  then obtain c where "pwle_loop composite cursor0 = Inr c"
    using in_range_loop_accepted by blast
  with h show "fst (composePwle composite cb w) = Inr ()"
    by (auto simp: composePwle_def limits)
qed

theorem composePwle_size_and_ranges_witness:
  "fst (composePwle [] None world0) = Inl EX_ILLEGAL_ARGUMENT
   \<and> 127 < length (replicate 128 (active ramp_up))
   \<and> fst (composePwle (replicate 128 (active ramp_up)) None world0)
       = Inl EX_ILLEGAL_ARGUMENT
   \<and> spec_segment_in_range (active ramp_up)
   \<and> spec_segment_in_range (braking_seg brake_clab)
   \<and> fst (composePwle [active ramp_up, braking_seg brake_clab] None world0) = Inr ()"
  using composePwle_size_and_ranges [of "[]" None world0]
    composePwle_size_and_ranges [of "replicate 128 (active ramp_up)" None world0]
    composePwle_size_and_ranges [of "[active ramp_up, braking_seg brake_clab]" None world0]
  by (simp add: ramp_up_def brake_clab_def limits)

subsection \<open>C6: the checks of compose\<close>

text \<open>
  C6, as stated, at the composition of an entry with an unsupported primitive
  followed by an entry with a delay of 2000 ms: the composition has an entry whose
  delay is above 1000, and the result is \<open>EX_UNSUPPORTED_OPERATION\<close>, not
  \<open>EX_ILLEGAL_ARGUMENT\<close>.
\<close>

theorem compose_checks_counterexample:
  "1000 < sint (delayMs long_delay_entry)
   \<and> fst (compose [unsupported_entry, long_delay_entry] None world0)
       = Inl EX_UNSUPPORTED_OPERATION"
  by (simp add: compose_def entries limits)

text \<open>
  C6, amended. A composition of more than 256 entries gets \<open>EX_ILLEGAL_ARGUMENT\<close>;
  the empty composition succeeds. Otherwise the entries are checked in order and the
  first entry that is not valid decides: \<open>EX_ILLEGAL_ARGUMENT\<close> when its delay is
  above 1000 or its scale is a number outside [0, 1], \<open>EX_UNSUPPORTED_OPERATION\<close>
  when its delay and scale are in range and its primitive is not in the supported
  set. When every entry is valid, \<open>compose\<close> succeeds. Nothing is said of an entry
  whose scale is a NaN.
\<close>

theorem compose_first_failing_entry_decides:
  "(256 < length composite \<longrightarrow> fst (compose composite cb w) = Inl EX_ILLEGAL_ARGUMENT)
   \<and> fst (compose [] cb w) = Inr ()
   \<and> (length composite \<le> 256 \<and> (\<forall>e\<in>set composite. entry_valid e) \<longrightarrow>
        fst (compose composite cb w) = Inr ())
   \<and> (length composite \<le> 256 \<and> composite = pre @ e # rest
        \<and> (\<forall>x\<in>set pre. entry_valid x) \<and> entry_invalid_argument e \<longrightarrow>
        fst (compose composite cb w) = Inl EX_ILLEGAL_ARGUMENT)
   \<and> (length composite \<le> 256 \<and> composite = pre @ e # rest
        \<and> (\<forall>x\<in>set pre. entry_valid x) \<and> entry_unsupported e \<longrightarrow>
        fst (compose composite cb w) = Inl EX_UNSUPPORTED_OPERATION)"
proof (intro conjI impI)
  assume "256 < length composite"
  then show "fst (compose composite cb w) = Inl EX_ILLEGAL_ARGUMENT"
    by (simp add: compose_def limits)
next
  show "fst (compose [] cb w) = Inr ()"
    by (simp add: compose_def)
next
  assume "length composite \<le> 256 \<and> (\<forall>e\<in>set composite. entry_valid e)"
  then show "fst (compose composite cb w) = Inr ()"
    by (simp add: compose_status compose_loop_all_valid)
next
  assume h: "length composite \<le> 256 \<and> composite = pre @ e # rest
        \<and> (\<forall>x\<in>set pre. entry_valid x) \<and> entry_invalid_argument e"
  then have len: "length composite \<le> 256" and eq: "composite = pre @ e # rest"
    and pre: "\<forall>x\<in>set pre. entry_valid x" and e: "entry_invalid_argument e"
    by auto
  have "compose_loop getSupportedPrimitives composite = Some EX_ILLEGAL_ARGUMENT"
    unfolding eq compose_loop_skips_valid [OF pre]
    by (rule entry_invalid_argument_rejected [OF e])
  with compose_status [OF len, of cb w]
  show "fst (compose composite cb w) = Inl EX_ILLEGAL_ARGUMENT"
    by simp
next
  assume h: "length composite \<le> 256 \<and> composite = pre @ e # rest
        \<and> (\<forall>x\<in>set pre. entry_valid x) \<and> entry_unsupported e"
  then have len: "length composite \<le> 256" and eq: "composite = pre @ e # rest"
    and pre: "\<forall>x\<in>set pre. entry_valid x" and e: "entry_unsupported e"
    by auto
  have "compose_loop getSupportedPrimitives composite = Some EX_UNSUPPORTED_OPERATION"
    unfolding eq compose_loop_skips_valid [OF pre]
    by (rule entry_unsupported_rejected [OF e])
  with compose_status [OF len, of cb w]
  show "fst (compose composite cb w) = Inl EX_UNSUPPORTED_OPERATION"
    by simp
qed

theorem compose_first_failing_entry_decides_witness:
  "256 < length (replicate 257 click_entry)
   \<and> fst (compose (replicate 257 click_entry) None world0) = Inl EX_ILLEGAL_ARGUMENT
   \<and> entry_valid click_entry
   \<and> fst (compose [click_entry, click_entry] None world0) = Inr ()
   \<and> entry_invalid_argument long_delay_entry
   \<and> fst (compose [click_entry, long_delay_entry, unsupported_entry] None world0)
       = Inl EX_ILLEGAL_ARGUMENT
   \<and> entry_invalid_argument loud_entry
   \<and> fst (compose [click_entry, loud_entry] None world0) = Inl EX_ILLEGAL_ARGUMENT
   \<and> entry_unsupported unsupported_entry
   \<and> fst (compose [click_entry, unsupported_entry, long_delay_entry] None world0)
       = Inl EX_UNSUPPORTED_OPERATION"
  using
    compose_first_failing_entry_decides
      [of "replicate 257 click_entry" None world0 "[]" click_entry "[]"]
    compose_first_failing_entry_decides
      [of "[click_entry, click_entry]" None world0 "[]" click_entry "[]"]
    compose_first_failing_entry_decides
      [of "[click_entry, long_delay_entry, unsupported_entry]" None world0
          "[click_entry]" long_delay_entry "[unsupported_entry]"]
    compose_first_failing_entry_decides
      [of "[click_entry, loud_entry]" None world0 "[click_entry]" loud_entry "[]"]
    compose_first_failing_entry_decides
      [of "[click_entry, unsupported_entry, long_delay_entry]" None world0
          "[click_entry]" unsupported_entry "[long_delay_entry]"]
  by (simp add: entries limits)

subsection \<open>C7: a rejected request changes nothing\<close>

text \<open>
  C7. When \<open>compose\<close> or \<open>composePwle\<close> returns an exception, the world is as it
  was before the call: nothing has been written to a driver node and no thread has
  been started, so no callback of the request is ever notified.
\<close>

theorem rejected_request_has_no_effect:
  "(isl (fst (compose composite cb w)) \<longrightarrow> snd (compose composite cb w) = w)
   \<and> (isl (fst (composePwle pwle cb w)) \<longrightarrow> snd (composePwle pwle cb w) = w)"
  by (simp add: compose_def composePwle_def split: option.splits sum.splits)

theorem rejected_request_has_no_effect_witness:
  "isl (fst (compose [click_entry, long_delay_entry] (Some 0) world0))
   \<and> snd (compose [click_entry, long_delay_entry] (Some 0) world0) = world0
   \<and> isl (fst (composePwle [active ramp_up, braking_seg \<lparr>braking = CLAB + 1, b_duration = 50\<rparr>]
              (Some 0) world0))
   \<and> snd (composePwle [active ramp_up, braking_seg \<lparr>braking = CLAB + 1, b_duration = 50\<rparr>]
              (Some 0) world0) = world0"
  using rejected_request_has_no_effect
    [of "[click_entry, long_delay_entry]" "Some 0" world0
        "[active ramp_up, braking_seg \<lparr>braking = CLAB + 1, b_duration = 50\<rparr>]"]
  by (simp add: compose_def composePwle_def entries samples limits)

subsection \<open>C8: a braking segment of negative duration\<close>

text \<open>
  C8. A composition of one braking segment of duration -1 is accepted: the braking
  branch compares the duration with the maximum only, where the active branch also
  rejects a negative one.
\<close>

theorem composePwle_accepts_negative_braking_duration:
  "sint (b_duration brake_negative) < 0
   \<and> fst (composePwle [braking_seg brake_negative] None world0) = Inr ()"
  by (simp add: composePwle_def brake_negative_def cursor0_def limits
        incrementIndex_def resetPreviousEndAmplitudeEndFrequency_def Let_def)

subsection \<open>C9: the command and the driver\<close>

text \<open>
  C9, as stated, at the composition of \<open>ramp_up\<close> and \<open>brake_clab\<close>, in a world
  where nothing has been written yet: the composition is accepted, and after the
  call still nothing has been written to any driver node.
\<close>

theorem composePwle_writes_no_node_counterexample:
  "fst (composePwle [active ramp_up, braking_seg brake_clab] None world0) = Inr ()
   \<and> nodes (snd (composePwle [active ramp_up, braking_seg brake_clab] None world0)) = []"
  by (simp add: composePwle_def samples limits world0_def detach_def)

text \<open>
  C9, amended. For a composition that passes the checks, \<open>composePwle\<close> assembles
  the command in its local stream: the header \<open>S:0,WF:4,RP:0,WT:0\<close> followed by the
  tokens that the encoder of the specification gives for the segments, starting from
  the sentinel pair and the index 0. It accumulates the sum of the declared durations
  in 32 bits. The only effect of the call is one more detached thread, which holds
  that total and the callback: nothing is written to the driver.
\<close>

theorem composePwle_builds_command_and_starts_thread:
  assumes "fst (composePwle composite cb w) = Inr ()"
  shows "\<exists>c. pwle_loop composite cursor0 = Inr c
           \<and> pwleBuilder c
               = header # spec_tokens (Finite (- 1)) (Finite (- 1)) 0 composite
           \<and> totalDuration c = word_of_int (declared_total composite)
           \<and> snd (composePwle composite cb w)
               = w\<lparr>threads := threads w
                     @ [ComposePwleThread (word_of_int (declared_total composite)) cb]\<rparr>
           \<and> nodes (snd (composePwle composite cb w)) = nodes w"
proof -
  from composePwle_accepted [OF assms]
  obtain c where l: "pwle_loop composite cursor0 = Inr c"
    and s: "snd (composePwle composite cb w)
           = w\<lparr>threads := threads w @ [ComposePwleThread (totalDuration c) cb]\<rparr>"
    by blast
  have b: "pwleBuilder c = header # spec_tokens (Finite (- 1)) (Finite (- 1)) 0 composite"
    using pwle_loop_tokens [OF l]
    by (simp add: cursor0_def header_def resetPreviousEndAmplitudeEndFrequency_def)
  have t: "totalDuration c = word_of_int (declared_total composite)"
    using pwle_loop_total [OF l]
    by (simp add: cursor0_def resetPreviousEndAmplitudeEndFrequency_def)
  from s have "nodes (snd (composePwle composite cb w)) = nodes w"
    by simp
  with l b t s show ?thesis by simp
qed

theorem composePwle_builds_command_and_starts_thread_witness:
  "fst (composePwle [active ramp_up, braking_seg brake_clab] (Some 0) world0) = Inr ()
   \<and> pwle_loop [active ramp_up, braking_seg brake_clab] cursor0 = Inr after_ramp_up_brake
   \<and> pwleBuilder after_ramp_up_brake
       = header # spec_active_token 0 0 (Finite 0) (Finite 150)
           @ spec_active_token 1 100 (Finite (1 / 2)) (Finite 150)
           @ spec_braking_token 2 0 1 @ spec_braking_token 3 50 1
   \<and> snd (composePwle [active ramp_up, braking_seg brake_clab] (Some 0) world0)
       = \<lparr>nodes = [], threads = [ComposePwleThread 150 (Some 0)]\<rparr>"
proof -
  have ok: "fst (composePwle [active ramp_up, braking_seg brake_clab] (Some 0) world0)
      = Inr ()"
    by (simp add: composePwle_def samples limits)
  have l: "pwle_loop [active ramp_up, braking_seg brake_clab] cursor0
      = Inr after_ramp_up_brake"
    by (simp add: samples cursors limits)
  from composePwle_builds_command_and_starts_thread [OF ok]
  have "snd (composePwle [active ramp_up, braking_seg brake_clab] (Some 0) world0)
      = world0\<lparr>threads := threads world0
          @ [ComposePwleThread
               (word_of_int (declared_total [active ramp_up, braking_seg brake_clab]))
               (Some 0)]\<rparr>"
    by blast
  then have "snd (composePwle [active ramp_up, braking_seg brake_clab] (Some 0) world0)
       = \<lparr>nodes = [], threads = [ComposePwleThread 150 (Some 0)]\<rparr>"
    by (simp add: world0_def declared_total_def ramp_up_def brake_clab_def)
  with ok l show ?thesis
    by (simp add: after_ramp_up_brake_def)
qed

subsection \<open>C10: the effects of perform\<close>

text \<open>
  C10. \<open>perform\<close> of POP reports 15 ms and writes the waveform index 1 to the index
  node, the index that TICK writes, then the duration 15 and the activation; an effect
  outside the supported set gets \<open>EX_UNSUPPORTED_OPERATION\<close> and nothing is written
  or started.
\<close>

theorem perform_pop_uses_tick_index:
  "fst (perform POP strength cb w) = Inr 15
   \<and> nodes (snd (perform POP strength cb w))
       = nodes w @ [(INDEX_NODE, IntV 1), (DURATION_NODE, IntV 15), (ACTIVATE_NODE, IntV 1)]
   \<and> nodes (snd (perform TICK strength cb w))
       = nodes w @ [(INDEX_NODE, IntV 1), (DURATION_NODE, IntV 10), (ACTIVATE_NODE, IntV 1)]
   \<and> (effect \<notin> set getSupportedEffects \<longrightarrow>
        perform effect strength cb w = (Inl EX_UNSUPPORTED_OPERATION, w))"
proof -
  have pop: "effect_waveform POP = Some (1, 15)"
    and tick: "effect_waveform TICK = Some (1, 10)"
    by (simp_all add: effect_waveform_def effects waveforms)
  have "effect \<notin> set getSupportedEffects \<Longrightarrow>
        perform effect strength cb w = (Inl EX_UNSUPPORTED_OPERATION, w)"
    by (simp add: getSupportedEffects_def perform_def effect_waveform_def)
  with perform_supported [OF pop, of strength cb w]
    perform_supported [OF tick, of strength cb w]
  show ?thesis by simp
qed

theorem perform_pop_uses_tick_index_witness:
  "(22 :: Effect) \<notin> set getSupportedEffects
   \<and> perform 22 STRONG (Some 0) world0 = (Inl EX_UNSUPPORTED_OPERATION, world0)
   \<and> (6 :: Effect) \<notin> set getSupportedEffects
   \<and> perform 6 STRONG (Some 0) world0 = (Inl EX_UNSUPPORTED_OPERATION, world0)
   \<and> fst (perform POP STRONG (Some 0) world0) = Inr 15"
  using perform_pop_uses_tick_index [of STRONG "Some 0" world0 22]
    perform_pop_uses_tick_index [of STRONG "Some 0" world0 6]
  by (simp add: getSupportedEffects_def effects)

end
